theory Spec2Isabelle
  imports Main "HOL-Library.Sublist"
begin

section \<open>Python text\<close>

text \<open>
  A Python \<open>str\<close> is a sequence of Unicode code points, so text is modelled as a list of
  natural numbers, one per code point. \<open>ascii\<close> reads an ASCII literal; the code
  points beyond ASCII that the source literals contain are written as numbers:
  224 is a-grave, 231 c-cedilla, 232 e-grave, 233 e-acute, 234 e-circumflex,
  244 o-circumflex and 127881 the party-popper emoji. The \<open>print\<close> calls of the source only
  write to the log and are left out.
\<close>

type_synonym codepoint = nat
type_synonym pystr = "codepoint list"

definition ascii :: "string \<Rightarrow> pystr" where
  "ascii s = map of_char s"

text \<open>\<open>str.isspace\<close> for one code point: the characters \<open>str.strip()\<close> removes.\<close>

definition isspace :: "codepoint \<Rightarrow> bool" where
  "isspace c \<longleftrightarrow>
     (9 \<le> c \<and> c \<le> 13) \<or> (28 \<le> c \<and> c \<le> 32) \<or> c = 133 \<or> c = 160 \<or> c = 5760 \<or>
     (8192 \<le> c \<and> c \<le> 8202) \<or> c = 8232 \<or> c = 8233 \<or> c = 8239 \<or> c = 8287 \<or> c = 12288"

text \<open>\<open>s.strip()\<close>: whitespace is dropped at the front, then at the back.\<close>

definition strip :: "pystr \<Rightarrow> pystr" where
  "strip s = rev (dropWhile isspace (rev (dropWhile isspace s)))"

text \<open>\<open>sep.join(xs)\<close>.\<close>

fun join :: "pystr \<Rightarrow> pystr list \<Rightarrow> pystr" where
  "join sep [] = []"
| "join sep [x] = x"
| "join sep (x # y # ys) = x @ sep @ join sep (y # ys)"


section \<open>Prompt construction (\<open>generate_recipe\<close>, lines 84 to 118)\<close>

text \<open>
  The two f-strings, each the literal text before the placeholder, the value of
  \<open>ingredients\<close>, and the literal text after it, followed by \<open>.strip()\<close>. Every line of
  the literal keeps its four blanks of indentation and its trailing blank where the source
  has one.
\<close>

definition prompt_fr :: "pystr \<Rightarrow> pystr" where
  "prompt_fr ingredients = strip (
     (ascii ''\<newline>'' @
     ascii ''    Tu es un chef cuisinier cr'' @ [233] @ ascii ''atif et passionn'' @ [233] @ ascii ''. \<newline>'' @
     ascii ''    Ton r'' @ [244] @ ascii ''le est de cr'' @ [233] @ ascii ''er une recette simple et d'' @ [233] @ ascii ''licieuse '' @ [224] @ ascii '' partir des ingr'' @ [233] @ ascii ''dients suivants : '') @ ingredients @ (ascii ''.\<newline>'' @
     ascii ''\<newline>'' @
     ascii ''    Ta r'' @ [233] @ ascii ''ponse doit '' @ [234] @ ascii ''tre au format JSON et contenir les cl'' @ [233] @ ascii ''s suivantes : \<newline>'' @
     ascii ''    - nom_recette\<newline>'' @
     ascii ''    - description_courte (2 phrases all'' @ [233] @ ascii ''chantes)\<newline>'' @
     ascii ''    - instructions (une liste d'' @ [39] @ [233] @ ascii ''tapes claires)\<newline>'' @
     ascii ''\<newline>'' @
     ascii ''    Utilise un style p'' @ [233] @ ascii ''dagogue et encourageant. Utilise du markdown.\<newline>'' @
     ascii ''    R'' @ [233] @ ascii ''ponds en fran'' @ [231] @ ascii ''ais.\<newline>'' @
     ascii ''    N'h'' @ [233] @ ascii ''site pas '' @ [224] @ ascii '' ajouter des conseils ou des astuces pour r'' @ [233] @ ascii ''ussir la recette.\<newline>'' @
     ascii ''    Utilise des '' @ [233] @ ascii ''mojis pour rendre la recette plus engageante.\<newline>'' @
     ascii ''    ''))"

definition prompt_en :: "pystr \<Rightarrow> pystr" where
  "prompt_en ingredients = strip (
     (ascii ''\<newline>'' @
     ascii ''    You're a creative and passionate chef. \<newline>'' @
     ascii ''    Your role is to create a simple, delicious recipe using the following ingredients: '') @ ingredients @ (ascii ''.\<newline>'' @
     ascii ''\<newline>'' @
     ascii ''    Your answer must be in JSON format and contain the following keys:\<newline>'' @
     ascii ''    - recipe_name\<newline>'' @
     ascii ''    - short_description (2 tantalizing sentences)\<newline>'' @
     ascii ''    - instructions (a list of clear steps)\<newline>'' @
     ascii ''\<newline>'' @
     ascii ''    Use a pedagogical and encouraging style. Use markdown.\<newline>'' @
     ascii ''    Respond in English.\<newline>'' @
     ascii ''    Feel free to add tips or tricks to make the recipe a success.\<newline>'' @
     ascii ''    Use emojis to make the recipe more engaging.\<newline>'' @
     ascii ''    ''))"

datatype LanguageEnum = fr | en

record RecipeRequest =
  ingredients :: "pystr list"
  language :: LanguageEnum

text \<open>
  The prompt \<open>generate_recipe\<close> hands to \<open>send_to_gemini\<close>: the ingredients joined by
  a comma and a blank, placed in the template the language selects.
\<close>

definition generate_recipe_prompt :: "RecipeRequest \<Rightarrow> pystr" where
  "generate_recipe_prompt data =
     (if language data = fr
      then prompt_fr (join (ascii '', '') (ingredients data))
      else prompt_en (join (ascii '', '') (ingredients data)))"


section \<open>JSON values and subscripting\<close>

text \<open>
  What \<open>response.json()\<close> returns: \<open>None\<close>, a bool, an int, a float, a \<open>str\<close>, a list
  or a dict with text keys. A dict is an association list read with \<open>map_of\<close>: the first
  pair for a key is the entry of the dict. The value of a float (mantissa and exponent)
  plays no part in what follows.
\<close>

datatype json =
    JNull
  | JBool bool
  | JInt int
  | JFloat int int
  | JStr pystr
  | JArr "json list"
  | JObj "(pystr \<times> json) list"

text \<open>
  The exceptions of the program: those of \<open>httpx\<close>, those raised by subscripting and by
  \<open>response.json()\<close>, and FastAPI's \<open>HTTPException(status_code, detail)\<close>. Of a response
  the program reads the status code, the body text \<open>response.text\<close> (field \<open>text'\<close>, only
  logged) and \<open>response.json()\<close> (field \<open>parsed\<close>).
\<close>

datatype RequestError =
    ConnectTimeout | ReadTimeout | WriteTimeout | PoolTimeout
  | ConnectError | ReadError | WriteError | CloseError
  | LocalProtocolError | RemoteProtocolError | ProxyError | UnsupportedProtocol
  | DecodingError | TooManyRedirects

record response =
  status_code :: nat
  text' :: pystr
  parsed :: "json option"

datatype exception =
    HTTPStatusError response
  | RequestError RequestError
  | KeyError
  | IndexError
  | TypeError
  | JSONDecodeError
  | HTTPException nat pystr

datatype subscript = Key pystr | Index int

text \<open>
  \<open>v[k]\<close> as Python evaluates it. A dict raises \<open>KeyError\<close> for a key it does not hold (an
  integer is never a key of a parsed JSON object); a list and a \<open>str\<close> take an integer,
  raise \<open>IndexError\<close> out of range and \<open>TypeError\<close> for a text subscript; \<open>None\<close>, bools
  and numbers are not subscriptable. \<open>position len i\<close> is the place an integer subscript
  \<open>i\<close> denotes in a sequence of length \<open>len\<close>, where \<open>-1\<close> is the last place and
  \<open>-len\<close> the first.
\<close>

definition position :: "nat \<Rightarrow> int \<Rightarrow> nat option" where
  "position len i =
     (if 0 \<le> i then (if nat i < len then Some (nat i) else None)
      else (if nat (- i) \<le> len then Some (len - nat (- i)) else None))"

fun getitem :: "json \<Rightarrow> subscript \<Rightarrow> exception + json" where
  "getitem (JObj kvs) (Key k) =
     (case map_of kvs k of None \<Rightarrow> Inl KeyError | Some v \<Rightarrow> Inr v)"
| "getitem (JObj kvs) (Index i) = Inl KeyError"
| "getitem (JArr xs) (Index i) =
     (case position (length xs) i of None \<Rightarrow> Inl IndexError | Some p \<Rightarrow> Inr (xs ! p))"
| "getitem (JArr xs) (Key k) = Inl TypeError"
| "getitem (JStr s) (Index i) =
     (case position (length s) i of None \<Rightarrow> Inl IndexError | Some p \<Rightarrow> Inr (JStr [s ! p]))"
| "getitem (JStr s) (Key k) = Inl TypeError"
| "getitem v k = Inl TypeError"

text \<open>A chain of subscripts \<open>v[k1][k2]...\<close>, left to right, stopping at the first exception.\<close>

fun subscripts :: "json \<Rightarrow> subscript list \<Rightarrow> exception + json" where
  "subscripts v [] = Inr v"
| "subscripts v (k # ks) =
     (case getitem v k of Inl e \<Rightarrow> Inl e | Inr w \<Rightarrow> subscripts w ks)"


section \<open>The upstream call (\<open>send_to_gemini\<close>)\<close>

text \<open>
  The configuration read from the environment at start-up, and the request
  \<open>client.post\<close> sends: URL, JSON payload, headers, and the timeout of the client.
\<close>

record config =
  GEMINI_API_KEY :: pystr
  GEMINI_MODEL :: pystr
  BASE_URL :: pystr

record request =
  url :: pystr
  payload :: json
  headers :: "(pystr \<times> pystr) list"
  timeout :: nat

definition gemini_request :: "config \<Rightarrow> pystr \<Rightarrow> request" where
  "gemini_request cfg prompt =
     \<lparr> url = BASE_URL cfg @ ascii ''/v1beta/models/'' @ GEMINI_MODEL cfg @
             ascii '':generateContent?key='' @ GEMINI_API_KEY cfg,
       payload = JObj [(ascii ''contents'',
                   JArr [JObj [(ascii ''parts'', JArr [JObj [(ascii ''text'', JStr prompt)]])]])],
       headers = [(ascii ''Content-Type'', ascii ''application/json'')],
       timeout = 60 \<rparr>"

text \<open>
  The network is a parameter: \<open>post\<close> maps the request to the \<open>httpx.RequestError\<close> raised
  when no response arrives (a timeout is one of them) or to the response received.

  \<open>response.raise_for_status()\<close> and \<open>response.json()\<close> belong to the \<open>httpx\<close> library, whose
  documented behaviour is taken: the first raises \<open>HTTPStatusError\<close> for every status
  outside 200 to 299, the second returns the parsed body or raises a JSON decoding error
  (\<open>parsed = None\<close>).
\<close>

definition is_success :: "response \<Rightarrow> bool" where
  "is_success r \<longleftrightarrow> 200 \<le> status_code r \<and> status_code r \<le> 299"

definition raise_for_status :: "response \<Rightarrow> exception + response" where
  "raise_for_status r = (if is_success r then Inr r else Inl (HTTPStatusError r))"

definition response_json :: "response \<Rightarrow> exception + json" where
  "response_json r = (case parsed r of None \<Rightarrow> Inl JSONDecodeError | Some data \<Rightarrow> Inr data)"

text \<open>The body of the \<open>try\<close> block, lines 42 to 50.\<close>

definition try_block ::
  "config \<Rightarrow> (request \<Rightarrow> RequestError + response) \<Rightarrow> pystr \<Rightarrow> exception + json" where
  "try_block cfg post prompt =
     (case post (gemini_request cfg prompt) of
        Inl e \<Rightarrow> Inl (RequestError e)
      | Inr r \<Rightarrow>
          (case raise_for_status r of
             Inl e \<Rightarrow> Inl e
           | Inr _ \<Rightarrow>
               (case response_json r of
                  Inl e \<Rightarrow> Inl e
                | Inr data \<Rightarrow>
                    subscripts data
                      [Key (ascii ''candidates''), Index 0, Key (ascii ''content''),
                       Key (ascii ''parts''), Index 0, Key (ascii ''text'')])))"

text \<open>
  The \<open>except\<close> clauses, lines 51 to 69, in their order: the exception each clause raises in
  place of the one it catches; an exception no clause names propagates unchanged.
\<close>

fun except_clauses :: "exception \<Rightarrow> exception" where
  "except_clauses (HTTPStatusError r) =
     (if status_code r = 429 then
        HTTPException 503
          (ascii ''Le service d'analyse IA est surcharg'' @ [233] @ ascii ''. Veuillez r'' @ [233] @
           ascii ''essayer plus tard.'')
      else if status_code r \<in> set [400, 401, 403] then
        HTTPException 500
          (ascii ''Probl'' @ [232] @
           ascii ''me de configuration interne avec le service d'analyse IA.'')
      else
        HTTPException 502
          (ascii ''Le service d'analyse IA externe rencontre un probl'' @ [232] @ ascii ''me.''))"
| "except_clauses (RequestError e) =
     HTTPException 504
       (ascii ''Impossible de joindre le service d'analyse IA. V'' @ [233] @
        ascii ''rifiez votre connexion.'')"
| "except_clauses KeyError =
     HTTPException 500
       (ascii ''La r'' @ [233] @ ascii ''ponse du service d'analyse IA est dans un format inattendu.'')"
| "except_clauses IndexError =
     HTTPException 500
       (ascii ''La r'' @ [233] @ ascii ''ponse du service d'analyse IA est dans un format inattendu.'')"
| "except_clauses e = e"

definition send_to_gemini ::
  "config \<Rightarrow> (request \<Rightarrow> RequestError + response) \<Rightarrow> pystr \<Rightarrow> exception + json" where
  "send_to_gemini cfg post prompt =
     (case try_block cfg post prompt of
        Inl e \<Rightarrow> Inl (except_clauses e)
      | Inr v \<Rightarrow> Inr v)"


section \<open>The route \<open>/generate-recipe\<close>\<close>

text \<open>
  \<open>generate_recipe\<close>: the prompt is built, sent upstream, and the reply wrapped in the
  response dict; an exception of \<open>send_to_gemini\<close> leaves the handler as it is.
\<close>

definition generate_recipe ::
  "config \<Rightarrow> (request \<Rightarrow> RequestError + response) \<Rightarrow> RecipeRequest \<Rightarrow> exception + json"
  where
  "generate_recipe cfg post data =
     (case send_to_gemini cfg post (generate_recipe_prompt data) of
        Inl e \<Rightarrow> Inl e
      | Inr gemini_response \<Rightarrow>
          Inr (JObj [(ascii ''message'',
                      JStr (ascii ''Recette g'' @ [233] @ ascii ''n'' @ [233] @ ascii ''r'' @ [233] @
                            ascii ''e avec succ'' @ [232] @ ascii ''s '' @ [127881])),
                     (ascii ''recipe'', gemini_response)]))"


section \<open>The expected shape of a reply, and simulated upstreams\<close>

text \<open>
  The specification's wording of the expected reply, written independently of the code: the
  body holds a value at the JSON path \<open>candidates[0].content.parts[0].text\<close>, where a name
  selects a member of an object and \<open>[0]\<close> the first element of an array.
\<close>

fun member :: "pystr \<Rightarrow> json \<Rightarrow> json option" where
  "member k (JObj kvs) = map_of kvs k"
| "member k v = None"

fun first_element :: "json \<Rightarrow> json option" where
  "first_element (JArr (x # xs)) = Some x"
| "first_element v = None"

definition spec_reply_text :: "json \<Rightarrow> json option" where
  "spec_reply_text data =
     Option.bind (member (ascii ''candidates'') data) (\<lambda>cands.
     Option.bind (first_element cands) (\<lambda>cand.
     Option.bind (member (ascii ''content'') cand) (\<lambda>content.
     Option.bind (member (ascii ''parts'') content) (\<lambda>parts.
     Option.bind (first_element parts) (\<lambda>part.
     member (ascii ''text'') part)))))"

text \<open>
  Upstreams for the simulated cases: one that gives the same outcome to every request, and
  one that answers a single expected request and is unreachable for any other. The
  configuration holds the defaults of the source and a sample key.
\<close>

definition simulated :: "RequestError + response \<Rightarrow> request \<Rightarrow> RequestError + response" where
  "simulated outcome q = outcome"

definition answering_only :: "request \<Rightarrow> response \<Rightarrow> request \<Rightarrow> RequestError + response" where
  "answering_only expected r q = (if q = expected then Inr r else Inl ConnectError)"

definition sample_config :: config where
  "sample_config =
     \<lparr> GEMINI_API_KEY = ascii ''sample-key'',
       GEMINI_MODEL = ascii ''gemini-2.5-flash'',
       BASE_URL = ascii ''https://generativelanguage.googleapis.com'' \<rparr>"

definition sample_request :: RecipeRequest where
  "sample_request =
     \<lparr> ingredients = [ascii ''tomato'', ascii ''basil'', ascii ''garlic''], language = en \<rparr>"

definition reply_with :: "nat \<Rightarrow> json \<Rightarrow> response" where
  "reply_with code body = \<lparr> status_code = code, text' = [], parsed = Some body \<rparr>"

definition well_formed_body :: "pystr \<Rightarrow> json" where
  "well_formed_body t =
     JObj [(ascii ''candidates'',
        JArr [JObj [(ascii ''content'',
          JObj [(ascii ''parts'', JArr [JObj [(ascii ''text'', JStr t)]])])]])]"


section \<open>Properties of the upstream call\<close>

subsection \<open>Shared facts\<close>

lemma generate_recipe_raises:
  "send_to_gemini cfg post (generate_recipe_prompt data) = Inl e \<Longrightarrow>
   generate_recipe cfg post data = Inl e"
  by (simp add: generate_recipe_def)

lemma send_to_gemini_status_error:
  assumes "post (gemini_request cfg prompt) = Inr r" and "\<not> is_success r"
  shows "send_to_gemini cfg post prompt = Inl (except_clauses (HTTPStatusError r))"
  using assms by (simp add: send_to_gemini_def try_block_def raise_for_status_def)

lemma send_to_gemini_success_status:
  assumes "post (gemini_request cfg prompt) = Inr r" and "is_success r"
  shows "send_to_gemini cfg post prompt =
    (case parsed r of
       None \<Rightarrow> Inl JSONDecodeError
     | Some body \<Rightarrow>
        (case subscripts body
                [Key (ascii ''candidates''), Index 0, Key (ascii ''content''),
                 Key (ascii ''parts''), Index 0, Key (ascii ''text'')] of
           Inl e \<Rightarrow> Inl (except_clauses e)
         | Inr v \<Rightarrow> Inr v))"
  using assms
  by (simp add: send_to_gemini_def try_block_def raise_for_status_def response_json_def
      split: option.splits sum.splits)

lemma getitem_raises:
  "getitem v k = Inl e \<Longrightarrow> e = KeyError \<or> e = IndexError \<or> e = TypeError"
  by (cases "(v, k)" rule: getitem.cases) (auto split: option.splits)

lemma subscripts_raises:
  "subscripts v ks = Inl e \<Longrightarrow> e = KeyError \<or> e = IndexError \<or> e = TypeError"
proof (induction ks arbitrary: v)
  case Nil
  then show ?case by simp
next
  case (Cons k ks)
  show ?case
  proof (cases "getitem v k")
    case (Inl e')
    with Cons.prems have "e' = e" by simp
    with Inl show ?thesis by (auto dest: getitem_raises)
  next
    case (Inr w)
    with Cons.prems have "subscripts w ks = Inl e" by simp
    then show ?thesis by (rule Cons.IH)
  qed
qed

lemma member_getitem: "member k v = Some w \<Longrightarrow> getitem v (Key k) = Inr w"
  by (cases v) auto

lemma first_element_getitem: "first_element v = Some w \<Longrightarrow> getitem v (Index 0) = Inr w"
  by (cases v rule: first_element.cases) (auto simp: position_def)

lemma spec_reply_text_subscripts:
  assumes "spec_reply_text body = Some v"
  shows "subscripts body
           [Key (ascii ''candidates''), Index 0, Key (ascii ''content''),
            Key (ascii ''parts''), Index 0, Key (ascii ''text'')] = Inr v"
proof -
  from assms obtain a b c d e where
    "member (ascii ''candidates'') body = Some a" "first_element a = Some b"
    "member (ascii ''content'') b = Some c" "member (ascii ''parts'') c = Some d"
    "first_element d = Some e" "member (ascii ''text'') e = Some v"
    unfolding spec_reply_text_def by (auto simp: bind_eq_Some_conv)
  then show ?thesis
    by (simp add: member_getitem first_element_getitem)
qed

lemma well_formed_reply_returned:
  assumes "post (gemini_request cfg prompt) = Inr r"
    and "200 \<le> status_code r \<and> status_code r \<le> 299"
    and "parsed r = Some body"
    and "spec_reply_text body = Some v"
  shows "send_to_gemini cfg post prompt = Inr v"
proof -
  have "subscripts body
          [Key (ascii ''candidates''), Index 0, Key (ascii ''content''),
           Key (ascii ''parts''), Index 0, Key (ascii ''text'')] = Inr v"
    using assms(4) by (rule spec_reply_text_subscripts)
  with assms(1-3) show ?thesis
    by (simp add: send_to_gemini_success_status is_success_def del: subscripts.simps)
qed


subsection \<open>Status-driven failures\<close>

text \<open>
  Claim C1. When the upstream answers with a status that is not 2xx and is none of 429,
  400, 401, 403 (a 3xx or a 5xx among them), \<open>send_to_gemini\<close> raises
  \<open>HTTPException(502)\<close> with its detail text; nothing is returned, and the route raises the
  same exception.
\<close>

theorem other_status_gives_502:
  assumes "post (gemini_request cfg prompt) = Inr r"
    and "\<not> (200 \<le> status_code r \<and> status_code r \<le> 299)"
    and "status_code r \<notin> {429, 400, 401, 403}"
  shows "send_to_gemini cfg post prompt =
           Inl (HTTPException 502
             (ascii ''Le service d'analyse IA externe rencontre un probl'' @ [232] @ ascii ''me.''))
         \<and> (generate_recipe_prompt data = prompt \<longrightarrow>
            generate_recipe cfg post data =
              Inl (HTTPException 502
                (ascii ''Le service d'analyse IA externe rencontre un probl'' @ [232] @
                 ascii ''me.'')))"
proof -
  from assms have "send_to_gemini cfg post prompt =
      Inl (HTTPException 502
        (ascii ''Le service d'analyse IA externe rencontre un probl'' @ [232] @ ascii ''me.''))"
    by (simp add: send_to_gemini_status_error is_success_def)
  then show ?thesis by (auto dest: generate_recipe_raises)
qed

theorem other_status_gives_502_witness:
  "status_code (reply_with 500 JNull) = 500 \<and> status_code (reply_with 302 JNull) = 302
   \<and> send_to_gemini sample_config (simulated (Inr (reply_with 500 JNull)))
        (generate_recipe_prompt sample_request) =
      Inl (HTTPException 502
        (ascii ''Le service d'analyse IA externe rencontre un probl'' @ [232] @ ascii ''me.''))
   \<and> generate_recipe sample_config (simulated (Inr (reply_with 500 JNull))) sample_request =
      Inl (HTTPException 502
        (ascii ''Le service d'analyse IA externe rencontre un probl'' @ [232] @ ascii ''me.''))
   \<and> generate_recipe sample_config (simulated (Inr (reply_with 302 JNull))) sample_request =
      Inl (HTTPException 502
        (ascii ''Le service d'analyse IA externe rencontre un probl'' @ [232] @ ascii ''me.''))"
  using
    other_status_gives_502 [of "simulated (Inr (reply_with 500 JNull))" sample_config
      "generate_recipe_prompt sample_request" "reply_with 500 JNull" sample_request]
    other_status_gives_502 [of "simulated (Inr (reply_with 302 JNull))" sample_config
      "generate_recipe_prompt sample_request" "reply_with 302 JNull" sample_request]
  by (simp add: simulated_def reply_with_def)

text \<open>
  Claim C5. When the upstream answers with status 429, \<open>send_to_gemini\<close> raises
  \<open>HTTPException(503)\<close> with its detail text, and so does the route.
\<close>

theorem status_429_gives_503:
  assumes "post (gemini_request cfg prompt) = Inr r"
    and "status_code r = 429"
  shows "send_to_gemini cfg post prompt =
           Inl (HTTPException 503
             (ascii ''Le service d'analyse IA est surcharg'' @ [233] @ ascii ''. Veuillez r'' @
              [233] @ ascii ''essayer plus tard.''))
         \<and> (generate_recipe_prompt data = prompt \<longrightarrow>
            generate_recipe cfg post data =
              Inl (HTTPException 503
                (ascii ''Le service d'analyse IA est surcharg'' @ [233] @ ascii ''. Veuillez r'' @
                 [233] @ ascii ''essayer plus tard.'')))"
proof -
  from assms have "send_to_gemini cfg post prompt =
      Inl (HTTPException 503
        (ascii ''Le service d'analyse IA est surcharg'' @ [233] @ ascii ''. Veuillez r'' @
         [233] @ ascii ''essayer plus tard.''))"
    by (simp add: send_to_gemini_status_error is_success_def)
  then show ?thesis by (auto dest: generate_recipe_raises)
qed

theorem status_429_gives_503_witness:
  "status_code (reply_with 429 JNull) = 429
   \<and> send_to_gemini sample_config (simulated (Inr (reply_with 429 JNull)))
        (generate_recipe_prompt sample_request) =
      Inl (HTTPException 503
        (ascii ''Le service d'analyse IA est surcharg'' @ [233] @ ascii ''. Veuillez r'' @
         [233] @ ascii ''essayer plus tard.''))
   \<and> generate_recipe sample_config (simulated (Inr (reply_with 429 JNull))) sample_request =
      Inl (HTTPException 503
        (ascii ''Le service d'analyse IA est surcharg'' @ [233] @ ascii ''. Veuillez r'' @
         [233] @ ascii ''essayer plus tard.''))"
  using
    status_429_gives_503 [of "simulated (Inr (reply_with 429 JNull))" sample_config
      "generate_recipe_prompt sample_request" "reply_with 429 JNull" sample_request]
  by (simp add: simulated_def reply_with_def)

text \<open>
  Claim C6. When the upstream answers with status 400, 401 or 403, \<open>send_to_gemini\<close> raises
  \<open>HTTPException(500)\<close> with the detail text about the internal configuration, and so does
  the route.
\<close>

theorem status_400_401_403_gives_500:
  assumes "post (gemini_request cfg prompt) = Inr r"
    and "status_code r \<in> {400, 401, 403}"
  shows "send_to_gemini cfg post prompt =
           Inl (HTTPException 500
             (ascii ''Probl'' @ [232] @
              ascii ''me de configuration interne avec le service d'analyse IA.''))
         \<and> (generate_recipe_prompt data = prompt \<longrightarrow>
            generate_recipe cfg post data =
              Inl (HTTPException 500
                (ascii ''Probl'' @ [232] @
                 ascii ''me de configuration interne avec le service d'analyse IA.'')))"
proof -
  from assms(2) have "\<not> is_success r" and "status_code r \<noteq> 429"
    by (auto simp: is_success_def)
  with assms have "send_to_gemini cfg post prompt =
      Inl (HTTPException 500
        (ascii ''Probl'' @ [232] @
         ascii ''me de configuration interne avec le service d'analyse IA.''))"
    by (auto simp: send_to_gemini_status_error)
  then show ?thesis by (auto dest: generate_recipe_raises)
qed

theorem status_400_401_403_gives_500_witness:
  "status_code (reply_with 403 JNull) \<in> {400, 401, 403}
   \<and> send_to_gemini sample_config (simulated (Inr (reply_with 403 JNull)))
        (generate_recipe_prompt sample_request) =
      Inl (HTTPException 500
        (ascii ''Probl'' @ [232] @
         ascii ''me de configuration interne avec le service d'analyse IA.''))
   \<and> generate_recipe sample_config (simulated (Inr (reply_with 403 JNull))) sample_request =
      Inl (HTTPException 500
        (ascii ''Probl'' @ [232] @
         ascii ''me de configuration interne avec le service d'analyse IA.''))"
  using
    status_400_401_403_gives_500 [of "simulated (Inr (reply_with 403 JNull))" sample_config
      "generate_recipe_prompt sample_request" "reply_with 403 JNull" sample_request]
  by (simp add: simulated_def reply_with_def)


subsection \<open>No response at all\<close>

text \<open>
  Claim C7. When the request fails without a response, whatever the \<open>httpx.RequestError\<close>
  (the expiry of the client's timeout of 60 is one), \<open>send_to_gemini\<close> raises
  \<open>HTTPException(504)\<close> with its detail text, and so does the route. The request carries the
  timeout 60.
\<close>

theorem request_error_gives_504:
  assumes "post (gemini_request cfg prompt) = Inl e"
  shows "timeout (gemini_request cfg prompt) = 60
         \<and> send_to_gemini cfg post prompt =
           Inl (HTTPException 504
             (ascii ''Impossible de joindre le service d'analyse IA. V'' @ [233] @
              ascii ''rifiez votre connexion.''))
         \<and> (generate_recipe_prompt data = prompt \<longrightarrow>
            generate_recipe cfg post data =
              Inl (HTTPException 504
                (ascii ''Impossible de joindre le service d'analyse IA. V'' @ [233] @
                 ascii ''rifiez votre connexion.'')))"
proof -
  from assms have "send_to_gemini cfg post prompt =
      Inl (HTTPException 504
        (ascii ''Impossible de joindre le service d'analyse IA. V'' @ [233] @
         ascii ''rifiez votre connexion.''))"
    by (simp add: send_to_gemini_def try_block_def)
  then show ?thesis by (auto simp: gemini_request_def dest: generate_recipe_raises)
qed

theorem request_error_gives_504_witness:
  "send_to_gemini sample_config (simulated (Inl ReadTimeout))
        (generate_recipe_prompt sample_request) =
      Inl (HTTPException 504
        (ascii ''Impossible de joindre le service d'analyse IA. V'' @ [233] @
         ascii ''rifiez votre connexion.''))
   \<and> generate_recipe sample_config (simulated (Inl ReadTimeout)) sample_request =
      Inl (HTTPException 504
        (ascii ''Impossible de joindre le service d'analyse IA. V'' @ [233] @
         ascii ''rifiez votre connexion.''))
   \<and> generate_recipe sample_config (simulated (Inl ConnectError)) sample_request =
      Inl (HTTPException 504
        (ascii ''Impossible de joindre le service d'analyse IA. V'' @ [233] @
         ascii ''rifiez votre connexion.''))"
  using
    request_error_gives_504 [of "simulated (Inl ReadTimeout)" sample_config
      "generate_recipe_prompt sample_request" ReadTimeout sample_request]
    request_error_gives_504 [of "simulated (Inl ConnectError)" sample_config
      "generate_recipe_prompt sample_request" ConnectError sample_request]
  by (simp add: simulated_def)


subsection \<open>The success path\<close>

text \<open>
  Claim C8. When the upstream answers with a 2xx status and a JSON body that holds the text
  \<open>t\<close> at \<open>candidates[0].content.parts[0].text\<close>, \<open>send_to_gemini\<close> returns \<open>t\<close> and the
  route returns the dict with the keys \<open>message\<close> and \<open>recipe\<close>, where \<open>recipe\<close> is \<open>t\<close>
  unchanged.
\<close>

theorem well_formed_reply_is_relayed:
  assumes "post (gemini_request cfg (generate_recipe_prompt data)) = Inr r"
    and "200 \<le> status_code r \<and> status_code r \<le> 299"
    and "parsed r = Some body"
    and "spec_reply_text body = Some (JStr t)"
  shows "send_to_gemini cfg post (generate_recipe_prompt data) = Inr (JStr t) \<and>
         generate_recipe cfg post data =
           Inr (JObj [(ascii ''message'',
                       JStr (ascii ''Recette g'' @ [233] @ ascii ''n'' @ [233] @ ascii ''r'' @ [233] @
                             ascii ''e avec succ'' @ [232] @ ascii ''s '' @ [127881])),
                      (ascii ''recipe'', JStr t)])"
proof -
  from assms have "send_to_gemini cfg post (generate_recipe_prompt data) = Inr (JStr t)"
    by (rule well_formed_reply_returned)
  then show ?thesis by (simp add: generate_recipe_def)
qed

theorem well_formed_reply_is_relayed_witness:
  "spec_reply_text (well_formed_body (ascii ''Recipe XYZ'')) = Some (JStr (ascii ''Recipe XYZ''))
   \<and> send_to_gemini sample_config
        (simulated (Inr (reply_with 200 (well_formed_body (ascii ''Recipe XYZ'')))))
        (generate_recipe_prompt sample_request) = Inr (JStr (ascii ''Recipe XYZ''))
   \<and> generate_recipe sample_config
        (simulated (Inr (reply_with 200 (well_formed_body (ascii ''Recipe XYZ'')))))
        sample_request =
      Inr (JObj [(ascii ''message'',
                  JStr (ascii ''Recette g'' @ [233] @ ascii ''n'' @ [233] @ ascii ''r'' @ [233] @
                        ascii ''e avec succ'' @ [232] @ ascii ''s '' @ [127881])),
                 (ascii ''recipe'', JStr (ascii ''Recipe XYZ''))])"
proof -
  have w: "spec_reply_text (well_formed_body (ascii ''Recipe XYZ'')) = Some (JStr (ascii ''Recipe XYZ''))"
    by (simp add: spec_reply_text_def well_formed_body_def)
  show ?thesis
    using w
      well_formed_reply_is_relayed [of
        "simulated (Inr (reply_with 200 (well_formed_body (ascii ''Recipe XYZ''))))" sample_config
        sample_request "reply_with 200 (well_formed_body (ascii ''Recipe XYZ''))"
        "well_formed_body (ascii ''Recipe XYZ'')" "ascii ''Recipe XYZ''"]
    by (simp add: simulated_def reply_with_def)
qed


subsection \<open>Replies of an unexpected shape\<close>

text \<open>
  A 2xx reply whose body is an object without the key \<open>candidates\<close> raises
  \<open>HTTPException(500)\<close> with the detail text about the unexpected format.
\<close>

lemma missing_candidates_gives_500:
  assumes "post (gemini_request cfg prompt) = Inr r" and "is_success r"
    and "parsed r = Some (JObj kvs)" and "map_of kvs (ascii ''candidates'') = None"
  shows "send_to_gemini cfg post prompt =
           Inl (HTTPException 500
             (ascii ''La r'' @ [233] @
              ascii ''ponse du service d'analyse IA est dans un format inattendu.''))"
  using assms by (simp add: send_to_gemini_success_status)

text \<open>
  Claim C3. A 2xx reply whose body lacks the path \<open>candidates[0].content.parts[0].text\<close>
  should raise \<open>HTTPException(500)\<close> with the detail text about the unexpected format. The
  code does so only when the path breaks at a missing key or index. For the body
  \<open>{"candidates": null}\<close> the subscript \<open>[0]\<close> raises \<open>TypeError\<close>, which no \<open>except\<close> clause
  catches: it leaves \<open>send_to_gemini\<close> and the route as it is.
\<close>

theorem null_candidates_raises_TypeError:
  "spec_reply_text (JObj [(ascii ''candidates'', JNull)]) = None
   \<and> send_to_gemini sample_config
       (simulated (Inr (reply_with 200 (JObj [(ascii ''candidates'', JNull)]))))
       (generate_recipe_prompt sample_request) = Inl TypeError
   \<and> generate_recipe sample_config
       (simulated (Inr (reply_with 200 (JObj [(ascii ''candidates'', JNull)]))))
       sample_request = Inl TypeError"
proof -
  have "send_to_gemini sample_config
       (simulated (Inr (reply_with 200 (JObj [(ascii ''candidates'', JNull)]))))
       (generate_recipe_prompt sample_request) = Inl TypeError"
    by (simp add: send_to_gemini_success_status
          [where r = "reply_with 200 (JObj [(ascii ''candidates'', JNull)])"]
        simulated_def reply_with_def is_success_def)
  then show ?thesis
    by (simp add: generate_recipe_raises spec_reply_text_def)
qed

text \<open>
  Claim C10. On a 2xx reply, the exception \<open>HTTPException(500)\<close> about the unexpected format
  is raised exactly when the body parses and the subscript chain raises \<open>KeyError\<close> or
  \<open>IndexError\<close>. A body that is not JSON raises the decoding error of \<open>response.json()\<close>; a
  body with \<open>candidates\<close> bound to a non-empty text, or with \<open>parts[0]\<close> not an object,
  raises \<open>TypeError\<close>. These leave \<open>send_to_gemini\<close> uncaught: they are none of the five
  \<open>HTTPException\<close>s.
\<close>

theorem only_key_and_index_errors_translated:
  assumes "post (gemini_request cfg prompt) = Inr r"
    and "200 \<le> status_code r \<and> status_code r \<le> 299"
  shows "(send_to_gemini cfg post prompt =
            Inl (HTTPException 500
              (ascii ''La r'' @ [233] @
               ascii ''ponse du service d'analyse IA est dans un format inattendu.''))
          \<longleftrightarrow>
          (\<exists>body. parsed r = Some body \<and>
             (subscripts body
                [Key (ascii ''candidates''), Index 0, Key (ascii ''content''),
                 Key (ascii ''parts''), Index 0, Key (ascii ''text'')] = Inl KeyError \<or>
              subscripts body
                [Key (ascii ''candidates''), Index 0, Key (ascii ''content''),
                 Key (ascii ''parts''), Index 0, Key (ascii ''text'')] = Inl IndexError)))
         \<and> (parsed r = None \<longrightarrow> send_to_gemini cfg post prompt = Inl JSONDecodeError)
         \<and> (parsed r = Some (JObj [(ascii ''candidates'', JStr (c # s))]) \<longrightarrow>
              send_to_gemini cfg post prompt = Inl TypeError)
         \<and> (parsed r = Some (JObj [(ascii ''candidates'',
                JArr [JObj [(ascii ''content'',
                  JObj [(ascii ''parts'', JArr [part])])]])]) \<and>
            (\<forall>kvs. part \<noteq> JObj kvs) \<longrightarrow>
              send_to_gemini cfg post prompt = Inl TypeError)"
proof -
  let ?path = "[Key (ascii ''candidates''), Index 0, Key (ascii ''content''),
                Key (ascii ''parts''), Index 0, Key (ascii ''text'')]"
  let ?fmt = "HTTPException 500
              (ascii ''La r'' @ [233] @
               ascii ''ponse du service d'analyse IA est dans un format inattendu.'')"
  from assms(2) have ok: "is_success r" by (simp add: is_success_def)
  note eq = send_to_gemini_success_status [of post cfg prompt r, OF assms(1) ok]
  have A: "send_to_gemini cfg post prompt = Inl ?fmt \<longleftrightarrow>
      (\<exists>body. parsed r = Some body \<and>
         (subscripts body ?path = Inl KeyError \<or> subscripts body ?path = Inl IndexError))"
  proof (cases "parsed r")
    case None
    then show ?thesis using eq by simp
  next
    case (Some body)
    show ?thesis
    proof (cases "subscripts body ?path")
      case (Inl e)
      then have "e = KeyError \<or> e = IndexError \<or> e = TypeError" by (rule subscripts_raises)
      with Inl Some eq show ?thesis by (auto simp del: subscripts.simps)
    next
      case (Inr v)
      with Some eq show ?thesis by (simp del: subscripts.simps)
    qed
  qed
  have B: "parsed r = None \<longrightarrow> send_to_gemini cfg post prompt = Inl JSONDecodeError"
    using eq by simp
  have C: "parsed r = Some (JObj [(ascii ''candidates'', JStr (c # s))]) \<longrightarrow>
      send_to_gemini cfg post prompt = Inl TypeError"
    using eq by (simp add: position_def)
  have D: "parsed r = Some (JObj [(ascii ''candidates'',
                JArr [JObj [(ascii ''content'',
                  JObj [(ascii ''parts'', JArr [part])])]])]) \<and>
            (\<forall>kvs. part \<noteq> JObj kvs) \<longrightarrow>
              send_to_gemini cfg post prompt = Inl TypeError"
    using eq by (cases part) (simp_all add: position_def ascii_def)
  from A B C D show ?thesis by blast
qed

theorem only_key_and_index_errors_translated_witness:
  "send_to_gemini sample_config
      (simulated (Inr \<lparr>status_code = 200, text' = ascii ''<html>'', parsed = None\<rparr>))
      (generate_recipe_prompt sample_request) = Inl JSONDecodeError
   \<and> send_to_gemini sample_config
      (simulated (Inr (reply_with 200 (JObj [(ascii ''candidates'', JStr (ascii ''abc''))]))))
      (generate_recipe_prompt sample_request) = Inl TypeError
   \<and> send_to_gemini sample_config
      (simulated (Inr (reply_with 200 (JObj [(ascii ''candidates'',
         JArr [JObj [(ascii ''content'', JObj [(ascii ''parts'', JArr [JInt 5])])]])]))))
      (generate_recipe_prompt sample_request) = Inl TypeError
   \<and> send_to_gemini sample_config
      (simulated (Inr (reply_with 200 (JObj []))))
      (generate_recipe_prompt sample_request) =
        Inl (HTTPException 500
              (ascii ''La r'' @ [233] @
               ascii ''ponse du service d'analyse IA est dans un format inattendu.''))"
  using
    only_key_and_index_errors_translated [where
      post = "simulated (Inr \<lparr>status_code = 200, text' = ascii ''<html>'', parsed = None\<rparr>)"
      and cfg = sample_config and prompt = "generate_recipe_prompt sample_request"
      and r = "\<lparr>status_code = 200, text' = ascii ''<html>'', parsed = None\<rparr>"]
    only_key_and_index_errors_translated [where
      post = "simulated (Inr (reply_with 200 (JObj [(ascii ''candidates'', JStr (ascii ''abc''))])))"
      and cfg = sample_config and prompt = "generate_recipe_prompt sample_request"
      and r = "reply_with 200 (JObj [(ascii ''candidates'', JStr (ascii ''abc''))])"
      and c = 97 and s = "[98, 99]"]
    only_key_and_index_errors_translated [where
      post = "simulated (Inr (reply_with 200 (JObj [(ascii ''candidates'',
         JArr [JObj [(ascii ''content'', JObj [(ascii ''parts'', JArr [JInt 5])])]])])))"
      and cfg = sample_config and prompt = "generate_recipe_prompt sample_request"
      and r = "reply_with 200 (JObj [(ascii ''candidates'',
         JArr [JObj [(ascii ''content'', JObj [(ascii ''parts'', JArr [JInt 5])])]])])"
      and part = "JInt 5"]
    only_key_and_index_errors_translated [where
      post = "simulated (Inr (reply_with 200 (JObj [])))"
      and cfg = sample_config and prompt = "generate_recipe_prompt sample_request"
      and r = "reply_with 200 (JObj [])"]
  by (simp add: simulated_def reply_with_def ascii_def)


section \<open>Properties of the prompt\<close>

subsection \<open>Substrings, \<open>strip\<close> and \<open>join\<close>\<close>

text \<open>
  \<open>sublist m s\<close> is Python's \<open>m in s\<close> for text. A non-empty text without whitespace occurs
  in \<open>strip s\<close> exactly when it occurs in \<open>s\<close>; a text that lacks a separating character
  cannot lie across it.
\<close>

lemma sublist_dropWhile_free:
  assumes "sublist m s" "m \<noteq> []" "\<forall>c\<in>set m. \<not> P c"
  shows "sublist m (dropWhile P s)"
proof -
  have "sublist m (takeWhile P s @ dropWhile P s)" using assms(1) by simp
  then consider "sublist m (takeWhile P s)" | "sublist m (dropWhile P s)"
    | m1 m2 where "m = m1 @ m2" "suffix m1 (takeWhile P s)" "prefix m2 (dropWhile P s)"
    unfolding sublist_append by blast
  then show ?thesis
  proof cases
    case 1
    then have "set m \<subseteq> set (takeWhile P s)" by (rule set_mono_sublist)
    moreover obtain c where "c \<in> set m" using assms(2) by (cases m) auto
    ultimately have "P c" by (meson set_takeWhileD subsetD)
    with \<open>c \<in> set m\<close> assms(3) show ?thesis by blast
  next
    case 2 then show ?thesis .
  next
    case 3
    have "m1 = []"
    proof (rule ccontr)
      assume "m1 \<noteq> []"
      then obtain c where c: "c \<in> set m1" by (cases m1) auto
      then have "c \<in> set (takeWhile P s)" using 3(2) set_mono_suffix by blast
      then have "P c" by (rule set_takeWhileD[THEN conjunct2])
      with c 3(1) assms(3) show False by auto
    qed
    with 3 show ?thesis by auto
  qed
qed

lemma sublist_trans:
  assumes "sublist xs ys" "sublist ys zs"
  shows "sublist xs zs"
proof -
  obtain p s where "ys = p @ xs @ s" using assms(1) by (auto simp: sublist_def)
  moreover obtain p' s' where "zs = p' @ ys @ s'" using assms(2) by (auto simp: sublist_def)
  ultimately have "zs = (p' @ p) @ xs @ (s @ s')" by simp
  then show ?thesis unfolding sublist_def by blast
qed

lemma sublist_strip:
  assumes "m \<noteq> []" "\<forall>c\<in>set m. \<not> isspace c"
  shows "sublist m (strip s) \<longleftrightarrow> sublist m s"
proof
  assume "sublist m (strip s)"
  moreover have "sublist (strip s) s"
  proof -
    have "sublist (dropWhile isspace (rev (dropWhile isspace s))) (rev (dropWhile isspace s))" by simp
    then have "sublist (strip s) (dropWhile isspace s)"
      unfolding strip_def by (simp add: sublist_rev_left)
    moreover have "sublist (dropWhile isspace s) s" by simp
    ultimately show ?thesis by (rule sublist_trans)
  qed
  ultimately show "sublist m s" by (rule sublist_trans)
next
  assume "sublist m s"
  then have "sublist m (dropWhile isspace s)" using assms by (rule sublist_dropWhile_free)
  then have "sublist (rev m) (rev (dropWhile isspace s))" by simp
  then have "sublist (rev m) (dropWhile isspace (rev (dropWhile isspace s)))"
    using assms by (intro sublist_dropWhile_free) auto
  then show "sublist m (strip s)" unfolding strip_def by (simp add: sublist_rev_right)
qed

lemma sublist_separator:
  assumes "c \<notin> set m"
  shows "sublist m (xs @ c # ys) \<longleftrightarrow> sublist m xs \<or> sublist m ys"
proof
  assume "sublist m (xs @ c # ys)"
  then consider "sublist m xs" | "sublist m (c # ys)"
    | m1 m2 where "m = m1 @ m2" "suffix m1 xs" "prefix m2 (c # ys)"
    unfolding sublist_append by blast
  then show "sublist m xs \<or> sublist m ys"
  proof cases
    case 1 then show ?thesis by simp
  next
    case 2
    then have "prefix m (c # ys) \<or> sublist m ys" by (simp add: sublist_Cons_right)
    moreover have "m = []" if "prefix m (c # ys)"
      using that assms by (cases m) auto
    ultimately show ?thesis by auto
  next
    case 3
    have "m2 = []" using 3(1,3) assms by (cases m2) auto
    with 3 show ?thesis by auto
  qed
next
  assume "sublist m xs \<or> sublist m ys"
  then show "sublist m (xs @ c # ys)"
    by (metis sublist_append sublist_Cons_right)
qed

lemma sublist_template:
  assumes m: "m \<noteq> []" "\<forall>c\<in>set m. \<not> isspace c"
    and A: "A \<noteq> []" "last A \<notin> set m"
    and B: "B \<noteq> []" "hd B \<notin> set m"
  shows "sublist m (strip (A @ J @ B)) \<longleftrightarrow> sublist m A \<or> sublist m J \<or> sublist m B"
proof -
  obtain A' where A': "A = A' @ [last A]" using A(1) by (metis append_butlast_last_id)
  obtain B' where B': "B = hd B # B'" using B(1) by (cases B) auto
  have 1: "sublist m A \<longleftrightarrow> sublist m A'"
    using sublist_separator[OF A(2), of A' "[]"] A' m(1) by auto
  have 2: "sublist m B \<longleftrightarrow> sublist m B'"
    using sublist_separator[OF B(2), of "[]" B'] B' m(1) by auto
  have "sublist m (A @ J @ B) \<longleftrightarrow> sublist m A' \<or> sublist m (J @ B)"
    using sublist_separator[OF A(2), of A' "J @ B"] A' by (metis append_Cons append_Nil append_assoc)
  also have "sublist m (J @ B) \<longleftrightarrow> sublist m J \<or> sublist m B'"
    using sublist_separator[OF B(2), of J B'] B' by simp
  finally show ?thesis using 1 2 sublist_strip[OF m] by simp
qed

lemma sublist_join:
  assumes "m \<noteq> []" and "44 \<notin> set m" and "32 \<notin> set m"
  shows "sublist m (join (ascii '', '') xs) \<longleftrightarrow> (\<exists>x\<in>set xs. sublist m x)"
proof (induction "ascii '', ''" xs rule: join.induct)
  case 1
  from assms(1) show ?case by simp
next
  case (2 x)
  show ?case by simp
next
  case (3 x y ys)
  have "join (ascii '', '') (x # y # ys) = x @ 44 # ([] @ 32 # join (ascii '', '') (y # ys))"
    by (simp add: ascii_def)
  then have "sublist m (join (ascii '', '') (x # y # ys)) \<longleftrightarrow>
      sublist m x \<or> sublist m [] \<or> sublist m (join (ascii '', '') (y # ys))"
    by (simp only: sublist_separator [OF assms(2)] sublist_separator [OF assms(3)])
  with 3 assms(1) show ?case by simp
qed

lemma fr_nom_recette: "sublist (ascii ''nom_recette'') (prompt_fr J)"
  unfolding prompt_fr_def
  by (subst sublist_template) (simp_all add: ascii_def isspace_def sublist_code)

lemma fr_description_courte: "sublist (ascii ''description_courte'') (prompt_fr J)"
  unfolding prompt_fr_def
  by (subst sublist_template) (simp_all add: ascii_def isspace_def sublist_code)

lemma fr_instructions: "sublist (ascii ''instructions'') (prompt_fr J)"
  unfolding prompt_fr_def
  by (subst sublist_template) (simp_all add: ascii_def isspace_def sublist_code)

lemma fr_recipe_name:
  "sublist (ascii ''recipe_name'') (prompt_fr J) \<longleftrightarrow> sublist (ascii ''recipe_name'') J"
  unfolding prompt_fr_def
  by (subst sublist_template) (simp_all add: ascii_def isspace_def sublist_code)

lemma fr_short_description:
  "sublist (ascii ''short_description'') (prompt_fr J) \<longleftrightarrow> sublist (ascii ''short_description'') J"
  unfolding prompt_fr_def
  by (subst sublist_template) (simp_all add: ascii_def isspace_def sublist_code)

lemma en_recipe_name: "sublist (ascii ''recipe_name'') (prompt_en J)"
  unfolding prompt_en_def
  by (subst sublist_template) (simp_all add: ascii_def isspace_def sublist_code)

lemma en_short_description: "sublist (ascii ''short_description'') (prompt_en J)"
  unfolding prompt_en_def
  by (subst sublist_template) (simp_all add: ascii_def isspace_def sublist_code)

lemma en_instructions: "sublist (ascii ''instructions'') (prompt_en J)"
  unfolding prompt_en_def
  by (subst sublist_template) (simp_all add: ascii_def isspace_def sublist_code)

lemma en_nom_recette:
  "sublist (ascii ''nom_recette'') (prompt_en J) \<longleftrightarrow> sublist (ascii ''nom_recette'') J"
  unfolding prompt_en_def
  by (subst sublist_template) (simp_all add: ascii_def isspace_def sublist_code)

lemma en_description_courte:
  "sublist (ascii ''description_courte'') (prompt_en J) \<longleftrightarrow> sublist (ascii ''description_courte'') J"
  unfolding prompt_en_def
  by (subst sublist_template) (simp_all add: ascii_def isspace_def sublist_code)

lemma join_markers:
  "sublist (ascii ''recipe_name'') (join (ascii '', '') xs) \<longleftrightarrow> (\<exists>x\<in>set xs. sublist (ascii ''recipe_name'') x)"
  "sublist (ascii ''short_description'') (join (ascii '', '') xs) \<longleftrightarrow> (\<exists>x\<in>set xs. sublist (ascii ''short_description'') x)"
  "sublist (ascii ''nom_recette'') (join (ascii '', '') xs) \<longleftrightarrow> (\<exists>x\<in>set xs. sublist (ascii ''nom_recette'') x)"
  "sublist (ascii ''description_courte'') (join (ascii '', '') xs) \<longleftrightarrow> (\<exists>x\<in>set xs. sublist (ascii ''description_courte'') x)"
  by (rule sublist_join; simp add: ascii_def)+


subsection \<open>The empty ingredient list\<close>

text \<open>
  Claim C4 says that a request with an empty ingredient list is rejected before the prompt
  is built. It is not: \<open>RecipeRequest\<close> puts no lower bound on the list, and the route
  builds the prompt and calls the upstream. Here the upstream answers only the request that
  carries the English prompt with an empty ingredient clause (any other request finds it
  unreachable), and the route returns its reply.
\<close>

theorem empty_ingredients_reach_upstream:
  "generate_recipe sample_config
     (answering_only (gemini_request sample_config (prompt_en []))
        (reply_with 200 (well_formed_body (ascii ''Recipe XYZ''))))
     \<lparr>ingredients = [], language = en\<rparr> =
   Inr (JObj [(ascii ''message'',
               JStr (ascii ''Recette g'' @ [233] @ ascii ''n'' @ [233] @ ascii ''r'' @ [233] @
                     ascii ''e avec succ'' @ [232] @ ascii ''s '' @ [127881])),
              (ascii ''recipe'', JStr (ascii ''Recipe XYZ''))])"
  by (simp add: generate_recipe_def generate_recipe_prompt_def send_to_gemini_success_status
      answering_only_def reply_with_def is_success_def well_formed_body_def position_def ascii_def)

text \<open>
  Claim C4, amended. A request with an empty ingredient list is not rejected: its prompt is
  the template of its language with an empty ingredient clause, the outcome of the route is
  the outcome of the upstream call on that prompt, and a well-formed 2xx reply is returned
  as the recipe.
\<close>

theorem empty_ingredients_are_sent_upstream:
  "generate_recipe_prompt \<lparr>ingredients = [], language = l\<rparr> =
     (case l of fr \<Rightarrow> prompt_fr [] | en \<Rightarrow> prompt_en [])
   \<and> generate_recipe cfg post \<lparr>ingredients = [], language = l\<rparr> =
       (case send_to_gemini cfg post (case l of fr \<Rightarrow> prompt_fr [] | en \<Rightarrow> prompt_en []) of
          Inl e \<Rightarrow> Inl e
        | Inr v \<Rightarrow>
            Inr (JObj [(ascii ''message'',
                        JStr (ascii ''Recette g'' @ [233] @ ascii ''n'' @ [233] @ ascii ''r'' @
                              [233] @ ascii ''e avec succ'' @ [232] @ ascii ''s '' @ [127881])),
                       (ascii ''recipe'', v)]))
   \<and> (post (gemini_request cfg (case l of fr \<Rightarrow> prompt_fr [] | en \<Rightarrow> prompt_en [])) = Inr r
        \<and> 200 \<le> status_code r \<and> status_code r \<le> 299
        \<and> parsed r = Some body \<and> spec_reply_text body = Some (JStr t) \<longrightarrow>
      generate_recipe cfg post \<lparr>ingredients = [], language = l\<rparr> =
        Inr (JObj [(ascii ''message'',
                    JStr (ascii ''Recette g'' @ [233] @ ascii ''n'' @ [233] @ ascii ''r'' @
                          [233] @ ascii ''e avec succ'' @ [232] @ ascii ''s '' @ [127881])),
                   (ascii ''recipe'', JStr t)]))"
proof -
  have p: "generate_recipe_prompt \<lparr>ingredients = [], language = l\<rparr> =
      (case l of fr \<Rightarrow> prompt_fr [] | en \<Rightarrow> prompt_en [])"
    by (cases l) (simp_all add: generate_recipe_prompt_def)
  have g: "generate_recipe cfg post \<lparr>ingredients = [], language = l\<rparr> =
       (case send_to_gemini cfg post (case l of fr \<Rightarrow> prompt_fr [] | en \<Rightarrow> prompt_en []) of
          Inl e \<Rightarrow> Inl e
        | Inr v \<Rightarrow>
            Inr (JObj [(ascii ''message'',
                        JStr (ascii ''Recette g'' @ [233] @ ascii ''n'' @ [233] @ ascii ''r'' @
                              [233] @ ascii ''e avec succ'' @ [232] @ ascii ''s '' @ [127881])),
                       (ascii ''recipe'', v)]))"
    unfolding generate_recipe_def p ..
  show ?thesis
    using p g well_formed_reply_returned [of post cfg
        "case l of fr \<Rightarrow> prompt_fr [] | en \<Rightarrow> prompt_en []" r body "JStr t"]
    by simp
qed

theorem empty_ingredients_are_sent_upstream_witness:
  "generate_recipe sample_config
     (simulated (Inr (reply_with 200 (well_formed_body (ascii ''Soupe'')))))
     \<lparr>ingredients = [], language = fr\<rparr> =
   Inr (JObj [(ascii ''message'',
               JStr (ascii ''Recette g'' @ [233] @ ascii ''n'' @ [233] @ ascii ''r'' @ [233] @
                     ascii ''e avec succ'' @ [232] @ ascii ''s '' @ [127881])),
              (ascii ''recipe'', JStr (ascii ''Soupe''))])"
proof -
  have w: "spec_reply_text (well_formed_body (ascii ''Soupe'')) = Some (JStr (ascii ''Soupe''))"
    by (simp add: spec_reply_text_def well_formed_body_def)
  note sent = empty_ingredients_are_sent_upstream [where l = fr and cfg = sample_config
        and post = "simulated (Inr (reply_with 200 (well_formed_body (ascii ''Soupe''))))"
        and r = "reply_with 200 (well_formed_body (ascii ''Soupe''))"
        and body = "well_formed_body (ascii ''Soupe'')" and t = "ascii ''Soupe''"]
  from w sent [THEN conjunct2, THEN conjunct2] show ?thesis
    by (simp add: simulated_def reply_with_def)
qed


subsection \<open>Template markers\<close>

text \<open>
  Claim C2 says that each prompt holds the markers of its language and none of the other
  language's. Two things stand against it: the ingredients are copied into the prompt as
  given, so the French prompt for the ingredient \<open>recipe_name\<close> holds that English marker;
  and \<open>instructions\<close>, a marker of both lists, is in the English prompt as well as in the
  French one.
\<close>

theorem markers_not_exclusive:
  "sublist (ascii ''recipe_name'')
     (generate_recipe_prompt \<lparr>ingredients = [ascii ''recipe_name''], language = fr\<rparr>)
   \<and> sublist (ascii ''instructions'')
     (generate_recipe_prompt \<lparr>ingredients = [ascii ''tomato''], language = en\<rparr>)"
  by (simp add: generate_recipe_prompt_def fr_recipe_name en_instructions)

text \<open>
  Claim C2, amended. For every ingredient list the French prompt holds \<open>nom_recette\<close>,
  \<open>description_courte\<close> and \<open>instructions\<close>, and the English prompt holds \<open>recipe_name\<close>,
  \<open>short_description\<close> and \<open>instructions\<close>. A prompt holds a marker proper to the other
  language (\<open>recipe_name\<close>, \<open>short_description\<close> in French; \<open>nom_recette\<close>,
  \<open>description_courte\<close> in English) exactly when one of the ingredients holds it.
\<close>

theorem prompt_markers:
  "sublist (ascii ''nom_recette'') (generate_recipe_prompt \<lparr>ingredients = xs, language = fr\<rparr>)
   \<and> sublist (ascii ''description_courte'') (generate_recipe_prompt \<lparr>ingredients = xs, language = fr\<rparr>)
   \<and> sublist (ascii ''instructions'') (generate_recipe_prompt \<lparr>ingredients = xs, language = fr\<rparr>)
   \<and> sublist (ascii ''recipe_name'') (generate_recipe_prompt \<lparr>ingredients = xs, language = en\<rparr>)
   \<and> sublist (ascii ''short_description'') (generate_recipe_prompt \<lparr>ingredients = xs, language = en\<rparr>)
   \<and> sublist (ascii ''instructions'') (generate_recipe_prompt \<lparr>ingredients = xs, language = en\<rparr>)
   \<and> (sublist (ascii ''recipe_name'') (generate_recipe_prompt \<lparr>ingredients = xs, language = fr\<rparr>)
        \<longleftrightarrow> (\<exists>x\<in>set xs. sublist (ascii ''recipe_name'') x))
   \<and> (sublist (ascii ''short_description'') (generate_recipe_prompt \<lparr>ingredients = xs, language = fr\<rparr>)
        \<longleftrightarrow> (\<exists>x\<in>set xs. sublist (ascii ''short_description'') x))
   \<and> (sublist (ascii ''nom_recette'') (generate_recipe_prompt \<lparr>ingredients = xs, language = en\<rparr>)
        \<longleftrightarrow> (\<exists>x\<in>set xs. sublist (ascii ''nom_recette'') x))
   \<and> (sublist (ascii ''description_courte'') (generate_recipe_prompt \<lparr>ingredients = xs, language = en\<rparr>)
        \<longleftrightarrow> (\<exists>x\<in>set xs. sublist (ascii ''description_courte'') x))"
  by (simp only: generate_recipe_prompt_def RecipeRequest.simps LanguageEnum.simps if_True if_False
      refl fr_nom_recette fr_description_courte fr_instructions en_recipe_name en_short_description
      en_instructions fr_recipe_name fr_short_description en_nom_recette en_description_courte
      join_markers simp_thms)

theorem prompt_markers_witness:
  "sublist (ascii ''nom_recette'') (generate_recipe_prompt \<lparr>ingredients = [ascii ''tomato'', ascii ''basil'', ascii ''garlic''], language = fr\<rparr>)
   \<and> sublist (ascii ''recipe_name'') (generate_recipe_prompt \<lparr>ingredients = [ascii ''tomato'', ascii ''basil'', ascii ''garlic''], language = en\<rparr>)
   \<and> \<not> sublist (ascii ''recipe_name'') (generate_recipe_prompt \<lparr>ingredients = [ascii ''tomato'', ascii ''basil'', ascii ''garlic''], language = fr\<rparr>)
   \<and> \<not> sublist (ascii ''short_description'') (generate_recipe_prompt \<lparr>ingredients = [ascii ''tomato'', ascii ''basil'', ascii ''garlic''], language = fr\<rparr>)
   \<and> \<not> sublist (ascii ''nom_recette'') (generate_recipe_prompt \<lparr>ingredients = [ascii ''tomato'', ascii ''basil'', ascii ''garlic''], language = en\<rparr>)
   \<and> \<not> sublist (ascii ''description_courte'') (generate_recipe_prompt \<lparr>ingredients = [ascii ''tomato'', ascii ''basil'', ascii ''garlic''], language = en\<rparr>)"
proof -
  have "\<not> (\<exists>x\<in>set [ascii ''tomato'', ascii ''basil'', ascii ''garlic'']. sublist (ascii ''recipe_name'') x)"
    "\<not> (\<exists>x\<in>set [ascii ''tomato'', ascii ''basil'', ascii ''garlic'']. sublist (ascii ''short_description'') x)"
    "\<not> (\<exists>x\<in>set [ascii ''tomato'', ascii ''basil'', ascii ''garlic'']. sublist (ascii ''nom_recette'') x)"
    "\<not> (\<exists>x\<in>set [ascii ''tomato'', ascii ''basil'', ascii ''garlic'']. sublist (ascii ''description_courte'') x)"
    by (simp_all add: ascii_def sublist_code)
  with prompt_markers [of "[ascii ''tomato'', ascii ''basil'', ascii ''garlic'']"]
  show ?thesis by blast
qed

end
